theory Spec2Isabelle
  imports
    Complex_Main
    "HOL-Library.AList"
    "HOL-Library.Char_ord"
    "HOL-Library.List_Lexorder"
begin

section \<open>Values, exceptions and data frames\<close>

text \<open>
  A cell of a pandas column or a value of the input dictionary: \<open>None\<close>, an integer, a
  float (a finite float is carried by its exact rational value; rounding, infinities and
  NaN are not modelled) or a string.
\<close>

datatype cell = NoneV | IntV int | FloatV rat | StrV string

text \<open>
  The exceptions that the two scripts can meet. \<open>UnseenLabels\<close> is the \<open>ValueError\<close>
  "y contains previously unseen labels" of scikit-learn's label encoder;
  \<open>NotException\<close> stands for a \<open>BaseException\<close> that is not an \<open>Exception\<close>
  (\<open>KeyboardInterrupt\<close>, \<open>SystemExit\<close>), which \<open>except Exception\<close> lets through.
\<close>

datatype py_exn =
    FileNotFoundError string
  | KeyError "string list"
  | UnseenLabels "cell list"
  | ValueError string
  | TypeError string
  | IndexError string
  | NotException string

fun is_Exception :: "py_exn \<Rightarrow> bool" where
  "is_Exception (NotException _) = False"
| "is_Exception _ = True"


text \<open>Sequencing of calls that may raise: the first exception ends the sequence.\<close>

definition and_then :: "py_exn + 'a \<Rightarrow> ('a \<Rightarrow> py_exn + 'b) \<Rightarrow> py_exn + 'b" where
  "and_then m f = (case m of Inl e \<Rightarrow> Inl e | Inr x \<Rightarrow> f x)"

text \<open>A statement run for its effect only: it completes, or it raises.\<close>

definition stmt :: "py_exn option \<Rightarrow> py_exn + unit" where
  "stmt outcome = (case outcome of None \<Rightarrow> Inr () | Some e \<Rightarrow> Inl e)"

text \<open>
  A data frame, column by column and in column order: the column name and its cells.
  \<open>df[col]\<close> raises \<open>KeyError\<close> for an absent column; \<open>df[col] = xs\<close> replaces the
  column where it stands, or appends a new one.
\<close>

type_synonym dataframe = "(string \<times> cell list) list"

definition get_col :: "dataframe \<Rightarrow> string \<Rightarrow> py_exn + cell list" where
  "get_col df c = (case map_of df c of None \<Rightarrow> Inl (KeyError [c]) | Some xs \<Rightarrow> Inr xs)"

definition set_col :: "dataframe \<Rightarrow> string \<Rightarrow> cell list \<Rightarrow> dataframe" where
  "set_col df c xs = AList.update c xs df"

definition columns :: "dataframe \<Rightarrow> string list" where
  "columns df = map fst df"

section \<open>The label encoder\<close>

text \<open>
  \<open>LabelEncoder\<close> is scikit-learn's; the scripts only call it. Its documented behaviour
  is modelled here. A column, and the array \<open>classes_\<close>, has a dtype: \<open>int64\<close> when
  it holds integers only, \<open>float64\<close> when it holds floats only, \<open>object\<close> otherwise
  (strings, \<open>None\<close>, nothing at all). A column read by \<open>read_csv\<close> holds strings
  only, integers only or floats only; missing values of the dataset are not modelled.
  So the classes of an encoder that \<open>fit\<close> returns are integers only, floats only or
  strings only.
\<close>

datatype dtype = Int64 | Float64 | Object

fun is_str :: "cell \<Rightarrow> bool" where
  "is_str (StrV _) = True"
| "is_str _ = False"

fun is_int :: "cell \<Rightarrow> bool" where
  "is_int (IntV _) = True"
| "is_int _ = False"

fun is_float :: "cell \<Rightarrow> bool" where
  "is_float (FloatV _) = True"
| "is_float _ = False"

fun str_of :: "cell \<Rightarrow> string" where
  "str_of (StrV s) = s"
| "str_of _ = []"

fun int_of :: "cell \<Rightarrow> int" where
  "int_of (IntV i) = i"
| "int_of _ = 0"

fun float_of :: "cell \<Rightarrow> rat" where
  "float_of (FloatV r) = r"
| "float_of _ = 0"

definition dtype_of :: "cell list \<Rightarrow> dtype" where
  "dtype_of xs =
     (if xs \<noteq> [] \<and> list_all is_int xs then Int64
      else if xs \<noteq> [] \<and> list_all is_float xs then Float64
      else Object)"

text \<open>
  \<open>fit\<close> stores in \<open>classes_\<close> the sorted distinct labels (\<open>numpy.unique\<close>, which
  cannot order strings against other values), with the dtype of the column.
\<close>

definition le_fit :: "cell list \<Rightarrow> py_exn + cell list" where
  "le_fit ys =
     (case dtype_of ys of
        Int64 \<Rightarrow> Inr (map IntV (sort (remdups (map int_of ys))))
      | Float64 \<Rightarrow> Inr (map FloatV (sort (remdups (map float_of ys))))
      | Object \<Rightarrow>
          (if list_all is_str ys then Inr (map StrV (sort (remdups (map str_of ys))))
           else Inl (TypeError ''unorderable labels'')))"

text \<open>
  \<open>transform\<close> first casts its argument to the dtype of \<open>classes_\<close>
  (\<open>column_or_1d(y, dtype=self.classes_.dtype)\<close>). To \<open>object\<close> nothing changes. To
  \<open>int64\<close> a float is truncated towards zero and \<open>None\<close> is a \<open>TypeError\<close>; to
  \<open>float64\<close> an integer becomes the float of the same value and \<open>None\<close> becomes NaN,
  which no class equals (it is left as \<open>None\<close> here). A string is read as a number by
  Python's \<open>int\<close> or \<open>float\<close>; that reading is the parameter \<open>parse\<close>, which gives no
  value where Python raises \<open>ValueError\<close>.
\<close>

type_synonym str_cast = "dtype \<Rightarrow> string \<Rightarrow> cell option"

fun astype :: "str_cast \<Rightarrow> dtype \<Rightarrow> cell \<Rightarrow> py_exn + cell" where
  "astype parse Object v = Inr v"
| "astype parse Int64 (IntV i) = Inr (IntV i)"
| "astype parse Int64 (FloatV r) = Inr (IntV (if 0 \<le> r then \<lfloor>r\<rfloor> else \<lceil>r\<rceil>))"
| "astype parse Int64 NoneV = Inl (TypeError ''int() argument must be a string or a number'')"
| "astype parse Float64 (IntV i) = Inr (FloatV (of_int i))"
| "astype parse Float64 (FloatV r) = Inr (FloatV r)"
| "astype parse Float64 NoneV = Inr NoneV"
| "astype parse dt (StrV s) =
     (case parse dt s of
        Some v \<Rightarrow> Inr v
      | None \<Rightarrow> Inl (ValueError ''could not convert string to a number''))"

fun astype_all :: "str_cast \<Rightarrow> dtype \<Rightarrow> cell list \<Rightarrow> py_exn + cell list" where
  "astype_all parse dt [] = Inr []"
| "astype_all parse dt (v # vs) =
     and_then (astype parse dt v) (\<lambda>z.
     and_then (astype_all parse dt vs) (\<lambda>zs. Inr (z # zs)))"

text \<open>
  Then \<open>transform\<close> maps each label to its position in \<open>classes_\<close> and raises
  \<open>ValueError\<close> when a label is not there; \<open>inverse_transform\<close> maps a position
  back. Line 22 of train.py prints the same mapping as
  \<open>dict(zip(le.classes_, range(len(le.classes_))))\<close>.
\<close>

definition index_of :: "'a list \<Rightarrow> 'a \<Rightarrow> nat" where
  "index_of xs x = length (takeWhile (\<lambda>y. y \<noteq> x) xs)"

definition le_transform :: "str_cast \<Rightarrow> cell list \<Rightarrow> cell list \<Rightarrow> py_exn + int list" where
  "le_transform parse classes ys =
     and_then (astype_all parse (dtype_of classes) ys) (\<lambda>zs.
       case filter (\<lambda>v. v \<notin> set classes) zs of
         [] \<Rightarrow> Inr (map (\<lambda>v. int (index_of classes v)) zs)
       | u # us \<Rightarrow> Inl (UnseenLabels (remdups (u # us))))"

definition le_inverse_transform :: "cell list \<Rightarrow> int list \<Rightarrow> py_exn + cell list" where
  "le_inverse_transform classes codes =
     (if list_all (\<lambda>c. 0 \<le> c \<and> c < int (length classes)) codes
      then Inr (map (\<lambda>c. classes ! nat c) codes)
      else Inl (ValueError ''y contains previously unseen labels''))"

text \<open>
  \<open>fit_transform\<close> returns, with no cast, the position of each label among the classes
  just fitted.
\<close>

definition le_fit_transform :: "cell list \<Rightarrow> py_exn + (cell list \<times> int list)" where
  "le_fit_transform ys =
     and_then (le_fit ys) (\<lambda>classes. Inr (classes, map (\<lambda>v. int (index_of classes v)) ys))"

definition code_cells :: "int list \<Rightarrow> cell list" where
  "code_cells codes = map IntV codes"

section \<open>The library calls and the files\<close>

text \<open>
  The splitter, the scaler and the random forest are scikit-learn's; the scripts hold
  only the calls. They are parameters here: each call may raise, and a randomised call is
  a function of the generator it draws from. \<open>train_test_split\<close> stands for the call
  with \<open>test_size=0.2\<close> and \<open>stratify=y\<close>, \<open>forest_fit\<close> for
  \<open>RandomForestClassifier(n_estimators=100).fit\<close>; \<open>'g\<close> is a generator state,
  \<open>'m\<close> a fitted classifier, \<open>'s\<close> a fitted scaler, \<open>'x\<close> a scaled matrix and
  \<open>'p\<close> a floating-point number. \<open>astype_str\<close> is the reading of a string as a
  number in a cast. \<open>joblib_dump\<close> tells, for a file name, whether \<open>joblib.dump\<close> to
  that file completes or raises (leaving no file), and \<open>print_out\<close> the same for
  \<open>print\<close> of a message, named here by its first words.
\<close>

record ('g, 'm, 's, 'x, 'p) sklearn =
  RandomState :: "int \<Rightarrow> 'g"
  train_test_split :: "'g \<Rightarrow> dataframe \<Rightarrow> cell list \<Rightarrow>
    py_exn + (dataframe \<times> dataframe \<times> cell list \<times> cell list)"
  scaler_fit :: "dataframe \<Rightarrow> py_exn + 's"
  scaler_transform :: "'s \<Rightarrow> dataframe \<Rightarrow> py_exn + 'x"
  forest_fit :: "'g \<Rightarrow> 'x \<Rightarrow> cell list \<Rightarrow> py_exn + 'm"
  predict :: "'m \<Rightarrow> 'x \<Rightarrow> py_exn + cell list"
  predict_proba :: "'m \<Rightarrow> 'x \<Rightarrow> py_exn + 'p list list"
  score :: "'m \<Rightarrow> 'x \<Rightarrow> cell list \<Rightarrow> py_exn + 'p"
  astype_str :: str_cast
  joblib_dump :: "string \<Rightarrow> py_exn option"
  print_out :: "string \<Rightarrow> py_exn option"

type_synonym encoder_bank = "(string \<times> cell list) list"

text \<open>
  The working directory: the dataset and the four artifact files, each absent or holding
  what train.py stores in it.
\<close>

record ('m, 's) disk =
  heart_csv :: "dataframe option"
  heart_model_pkl :: "'m option"
  scaler_pkl :: "'s option"
  model_columns_pkl :: "string list option"
  label_encoders_pkl :: "encoder_bank option"

definition open_file :: "string \<Rightarrow> 'a option \<Rightarrow> py_exn + 'a" where
  "open_file name file = (case file of None \<Rightarrow> Inl (FileNotFoundError name) | Some obj \<Rightarrow> Inr obj)"

section \<open>train.py\<close>

definition categorical_cols :: "string list" where
  "categorical_cols = [''Sex'', ''ChestPainType'', ''RestingECG'', ''ExerciseAngina'', ''ST_Slope'']"

text \<open>
  The loop of lines 18 to 22: for each categorical column in turn, fit an encoder on the
  column, replace the column by its codes, store the encoder under the column's name and
  print the mapping.
\<close>

fun encode_columns ::
  "('g, 'm, 's, 'x, 'p) sklearn \<Rightarrow> string list \<Rightarrow> dataframe \<Rightarrow> encoder_bank \<Rightarrow>
   py_exn + (dataframe \<times> encoder_bank)" where
  "encode_columns lib [] df les = Inr (df, les)"
| "encode_columns lib (col # cols) df les =
     and_then (get_col df col) (\<lambda>ys.
     and_then (le_fit_transform ys) (\<lambda>(classes, codes).
     and_then (stmt (print_out lib (''Encoded '' @ col))) (\<lambda>_.
       encode_columns lib cols (set_col df col (code_cells codes))
         (AList.update col classes les))))"

definition drop_col :: "dataframe \<Rightarrow> string \<Rightarrow> py_exn + dataframe" where
  "drop_col df c =
     (if c \<in> set (columns df) then Inr (filter (\<lambda>kv. fst kv \<noteq> c) df)
      else Inl (KeyError [c]))"

text \<open>Lines 8 to 29: read the dataset, encode, separate the features from the label.\<close>

definition load_and_encode ::
  "('g, 'm, 's, 'x, 'p) sklearn \<Rightarrow> ('m, 's) disk \<Rightarrow>
   py_exn + (encoder_bank \<times> dataframe \<times> cell list)" where
  "load_and_encode lib d =
     and_then (open_file ''heart.csv'' (heart_csv d)) (\<lambda>df0.
     and_then (stmt (print_out lib ''Dataset loaded successfully!'')) (\<lambda>_.
     and_then (stmt (print_out lib ''Dataset shape'')) (\<lambda>_.
     and_then (stmt (print_out lib ''Columns'')) (\<lambda>_.
     and_then (encode_columns lib categorical_cols df0 []) (\<lambda>(df, label_encoders).
     and_then (drop_col df ''HeartDisease'') (\<lambda>X.
     and_then (get_col df ''HeartDisease'') (\<lambda>y.
     and_then (stmt (print_out lib ''Features shape'')) (\<lambda>_.
     and_then (stmt (print_out lib ''Target distribution'')) (\<lambda>_.
       Inr (label_encoders, X, y))))))))))"

record ('m, 's, 'x, 'p) trained =
  X_train :: dataframe
  X_test :: dataframe
  y_train :: "cell list"
  y_test :: "cell list"
  X_test_scaled :: 'x
  fitted_scaler :: 's
  fitted_model :: 'm
  train_score :: 'p
  test_score :: 'p

text \<open>
  Lines 35 to 55, after the feature order is saved: split, fit the scaler on the training
  part and transform both parts (\<open>fit_transform\<close> is \<open>fit\<close>, then \<open>transform\<close>),
  fit the forest, score it. Both randomised calls are given \<open>random_state=42\<close>, a
  generator freshly seeded with 42.
\<close>

definition fit_steps ::
  "('g, 'm, 's, 'x, 'p) sklearn \<Rightarrow> dataframe \<Rightarrow> cell list \<Rightarrow>
   py_exn + ('m, 's, 'x, 'p) trained" where
  "fit_steps lib X y =
     and_then (train_test_split lib (RandomState lib 42) X y) (\<lambda>(Xtr, Xte, ytr, yte).
     and_then (stmt (print_out lib ''Training set'')) (\<lambda>_.
     and_then (scaler_fit lib Xtr) (\<lambda>scaler.
     and_then (scaler_transform lib scaler Xtr) (\<lambda>Xtr_scaled.
     and_then (scaler_transform lib scaler Xte) (\<lambda>Xte_scaled.
     and_then (forest_fit lib (RandomState lib 42) Xtr_scaled ytr) (\<lambda>model.
     and_then (score lib model Xtr_scaled ytr) (\<lambda>s_train.
     and_then (score lib model Xte_scaled yte) (\<lambda>s_test.
     and_then (stmt (print_out lib ''Training Accuracy'')) (\<lambda>_.
     and_then (stmt (print_out lib ''Test Accuracy'')) (\<lambda>_.
       Inr \<lparr>X_train = Xtr, X_test = Xte, y_train = ytr, y_test = yte,
            X_test_scaled = Xte_scaled, fitted_scaler = scaler, fitted_model = model,
            train_score = s_train, test_score = s_test\<rparr>))))))))))"

text \<open>Lines 62 to 67: the six closing prints.\<close>

definition closing_prints :: "('g, 'm, 's, 'x, 'p) sklearn \<Rightarrow> py_exn + unit" where
  "closing_prints lib =
     and_then (stmt (print_out lib ''Training complete! Files saved:'')) (\<lambda>_.
     and_then (stmt (print_out lib '' heart_model.pkl'')) (\<lambda>_.
     and_then (stmt (print_out lib '' scaler.pkl'')) (\<lambda>_.
     and_then (stmt (print_out lib '' model_columns.pkl'')) (\<lambda>_.
     and_then (stmt (print_out lib '' label_encoders.pkl'')) (\<lambda>_.
       stmt (print_out lib ''Model Performance''))))))"

text \<open>
  The whole script, on the working directory \<open>d\<close>. The result is the directory as the
  script leaves it, and either the exception that ended the script or what it fitted.
  Each \<open>joblib.dump\<close> is a statement of its own: model_columns.pkl is written at line
  32, heart_model.pkl, scaler.pkl and label_encoders.pkl at lines 58, 59 and 60.
\<close>

definition train ::
  "('g, 'm, 's, 'x, 'p) sklearn \<Rightarrow> ('m, 's) disk \<Rightarrow>
   ('m, 's) disk \<times> (py_exn + ('m, 's, 'x, 'p) trained)" where
  "train lib d =
     (case load_and_encode lib d of
        Inl e \<Rightarrow> (d, Inl e)
      | Inr (label_encoders, X, y) \<Rightarrow>
     (case joblib_dump lib ''model_columns.pkl'' of
        Some e \<Rightarrow> (d, Inl e)
      | None \<Rightarrow>
     (let d1 = d\<lparr>model_columns_pkl := Some (columns X)\<rparr> in
      case fit_steps lib X y of
        Inl e \<Rightarrow> (d1, Inl e)
      | Inr t \<Rightarrow>
     (case joblib_dump lib ''heart_model.pkl'' of
        Some e \<Rightarrow> (d1, Inl e)
      | None \<Rightarrow>
     (let d2 = d1\<lparr>heart_model_pkl := Some (fitted_model t)\<rparr> in
      case joblib_dump lib ''scaler.pkl'' of
        Some e \<Rightarrow> (d2, Inl e)
      | None \<Rightarrow>
     (let d3 = d2\<lparr>scaler_pkl := Some (fitted_scaler t)\<rparr> in
      case joblib_dump lib ''label_encoders.pkl'' of
        Some e \<Rightarrow> (d3, Inl e)
      | None \<Rightarrow>
     (let d4 = d3\<lparr>label_encoders_pkl := Some label_encoders\<rparr> in
      case closing_prints lib of
        Inl e \<Rightarrow> (d4, Inl e)
      | Inr _ \<Rightarrow> (d4, Inr t))))))))"

section \<open>main.py: what the page shows\<close>

datatype risk_factor =
    AgeAbove45Male cell
  | AgeAbove55Female cell
  | ElevatedBloodPressure cell
  | ElevatedCholesterol cell
  | ImpairedFastingGlucose
  | ExerciseInducedAngina
  | SignificantSTDepression cell
  | MinorSTDepression cell
  | VesselsAffected cell
  | SymptomaticChestPain cell

text \<open>
  One constructor for each message the page can show; the wording and the styling of the
  messages are left out.
\<close>

datatype 'p ui_event =
    ModelFileMissing py_exn
  | RunTrainFirstHint
  | Divider
  | PredictionResultHeader
  | HighRisk 'p
  | LowRisk 'p
  | RiskFactors "risk_factor list"
  | Recommendations bool
  | ErrorInPrediction py_exn
  | CheckInputsHint

section \<open>main.py: load\_model\_files\<close>


section \<open>main.py: display\_input\_section\<close>

text \<open>
  What the user has set on the form: a value for each slider and, for each select box,
  the position of the chosen option.
\<close>

record widgets =
  age_slider :: int
  sex_choice :: nat
  restbp_slider :: int
  chol_slider :: int
  cp_choice :: nat
  fbs_choice :: nat
  restecg_choice :: nat
  exang_choice :: nat
  maxhr_slider :: int
  oldpeak_slider :: rat
  slope_choice :: nat
  ca_slider :: int
  thal_slider :: int

text \<open>
  \<open>st.selectbox\<close> returns the chosen option, and \<open>None\<close> when there is no option to
  choose from.
\<close>

definition selectbox :: "cell list \<Rightarrow> nat \<Rightarrow> cell" where
  "selectbox options i = (if i < length options then options ! i else NoneV)"

definition item :: "(string \<times> 'a) list \<Rightarrow> string \<Rightarrow> py_exn + 'a" where
  "item dict k = (case map_of dict k of None \<Rightarrow> Inl (KeyError [k]) | Some v \<Rightarrow> Inr v)"

text \<open>\<open>int(fbs)\<close> on the text of the chosen option.\<close>

fun py_int :: "cell \<Rightarrow> py_exn + cell" where
  "py_int (StrV s) =
     (if s = ''0'' then Inr (IntV 0) else if s = ''1'' then Inr (IntV 1)
      else Inl (ValueError ''invalid literal for int()''))"
| "py_int (IntV i) = Inr (IntV i)"
| "py_int (FloatV r) = Inr (IntV (if 0 \<le> r then \<lfloor>r\<rfloor> else \<lceil>r\<rceil>))"
| "py_int NoneV = Inl (TypeError ''int() argument must be a string or a number'')"

type_synonym raw_record = "(string \<times> cell) list"

text \<open>
  The dictionary stored in \<open>st.session_state.user_inputs\<close> at lines 244 to 258. The
  options of the five select boxes of categorical fields are the \<open>classes_\<close> of the
  encoder stored under the field's name. What the section draws on the page and its
  button, which only asks for the page to be run again with the results shown, are left
  out; \<open>main\<close> runs this section and then, in the same run and with the same encoder
  bank, \<open>display_prediction_results\<close> on the dictionary stored here.
\<close>

definition display_input_section :: "encoder_bank \<Rightarrow> widgets \<Rightarrow> py_exn + raw_record" where
  "display_input_section label_encoders w =
     and_then (item label_encoders ''Sex'') (\<lambda>sex_classes.
     and_then (item label_encoders ''ChestPainType'') (\<lambda>cp_classes.
     and_then (item label_encoders ''RestingECG'') (\<lambda>restecg_classes.
     and_then (item label_encoders ''ExerciseAngina'') (\<lambda>exang_classes.
     and_then (item label_encoders ''ST_Slope'') (\<lambda>slope_classes.
     and_then (py_int (selectbox [StrV ''0'', StrV ''1''] (fbs_choice w))) (\<lambda>fbs.
       Inr [(''Age'', IntV (age_slider w)),
            (''Sex'', selectbox sex_classes (sex_choice w)),
            (''ChestPainType'', selectbox cp_classes (cp_choice w)),
            (''RestingBP'', IntV (restbp_slider w)),
            (''Cholesterol'', IntV (chol_slider w)),
            (''FastingBS'', fbs),
            (''RestingECG'', selectbox restecg_classes (restecg_choice w)),
            (''MaxHR'', IntV (maxhr_slider w)),
            (''ExerciseAngina'', selectbox exang_classes (exang_choice w)),
            (''Oldpeak'', FloatV (oldpeak_slider w)),
            (''ST_Slope'', selectbox slope_classes (slope_choice w)),
            (''Ca'', IntV (ca_slider w)),
            (''Thal'', IntV (thal_slider w))]))))))"

definition form_fields :: "string list" where
  "form_fields = [''Age'', ''Sex'', ''ChestPainType'', ''RestingBP'', ''Cholesterol'',
     ''FastingBS'', ''RestingECG'', ''MaxHR'', ''ExerciseAngina'', ''Oldpeak'', ''ST_Slope'',
     ''Ca'', ''Thal'']"

text \<open>
  What the widgets allow: a slider value lies between the slider's bounds, a select box
  with options returns one of them.
\<close>

definition choice_ok :: "encoder_bank \<Rightarrow> string \<Rightarrow> nat \<Rightarrow> bool" where
  "choice_ok label_encoders col i =
     (case map_of label_encoders col of None \<Rightarrow> False | Some classes \<Rightarrow> i < length classes)"

definition widgets_ok :: "encoder_bank \<Rightarrow> widgets \<Rightarrow> bool" where
  "widgets_ok label_encoders w \<longleftrightarrow>
     1 \<le> age_slider w \<and> age_slider w \<le> 120
   \<and> 50 \<le> restbp_slider w \<and> restbp_slider w \<le> 200
   \<and> 100 \<le> chol_slider w \<and> chol_slider w \<le> 600
   \<and> 60 \<le> maxhr_slider w \<and> maxhr_slider w \<le> 220
   \<and> 0 \<le> oldpeak_slider w \<and> oldpeak_slider w \<le> 10
   \<and> 0 \<le> ca_slider w \<and> ca_slider w \<le> 3
   \<and> 0 \<le> thal_slider w \<and> thal_slider w \<le> 3
   \<and> fbs_choice w < 2
   \<and> choice_ok label_encoders ''Sex'' (sex_choice w)
   \<and> choice_ok label_encoders ''ChestPainType'' (cp_choice w)
   \<and> choice_ok label_encoders ''RestingECG'' (restecg_choice w)
   \<and> choice_ok label_encoders ''ExerciseAngina'' (exang_choice w)
   \<and> choice_ok label_encoders ''ST_Slope'' (slope_choice w)"

section \<open>main.py: display\_prediction\_results\<close>

text \<open>\<open>pd.DataFrame([user_inputs])\<close>: one row, the keys as columns.\<close>

definition DataFrame :: "raw_record \<Rightarrow> dataframe" where
  "DataFrame user_inputs = map (\<lambda>kv. (fst kv, [snd kv])) user_inputs"

text \<open>
  Lines 276 to 278: each encoder of the bank, in the bank's order, transforms its column
  when the frame has it.
\<close>

fun encode_inputs :: "str_cast \<Rightarrow> encoder_bank \<Rightarrow> dataframe \<Rightarrow> py_exn + dataframe" where
  "encode_inputs parse [] df = Inr df"
| "encode_inputs parse ((col, le) # rest) df =
     (if col \<in> set (columns df)
      then and_then (get_col df col) (\<lambda>ys.
           and_then (le_transform parse le ys) (\<lambda>codes.
             encode_inputs parse rest (set_col df col (code_cells codes))))
      else encode_inputs parse rest df)"

text \<open>
  Line 281, \<open>input_df[model_columns]\<close>: the listed columns in the listed order;
  pandas raises \<open>KeyError\<close> with the labels that are not columns of the frame.
\<close>

definition column_cells :: "dataframe \<Rightarrow> string \<Rightarrow> cell list" where
  "column_cells df c = (case map_of df c of None \<Rightarrow> [] | Some xs \<Rightarrow> xs)"

definition select_columns :: "dataframe \<Rightarrow> string list \<Rightarrow> py_exn + dataframe" where
  "select_columns df cols =
     (case filter (\<lambda>c. c \<notin> set (columns df)) cols of
        [] \<Rightarrow> Inr (map (\<lambda>c. (c, column_cells df c)) cols)
      | m # ms \<Rightarrow> Inl (KeyError (m # ms)))"

definition first :: "'a list \<Rightarrow> py_exn + 'a" where
  "first xs = (case xs of [] \<Rightarrow> Inl (IndexError ''index 0 is out of bounds'') | x # _ \<Rightarrow> Inr x)"

text \<open>Lines 273 to 286: encode, order the columns, scale, predict.\<close>

definition predict_steps ::
  "('g, 'm, 's, 'x, 'p) sklearn \<Rightarrow> 'm \<Rightarrow> 's \<Rightarrow> string list \<Rightarrow> encoder_bank \<Rightarrow> raw_record \<Rightarrow>
   py_exn + (cell \<times> 'p list)" where
  "predict_steps lib model scaler model_columns label_encoders user_inputs =
     and_then (encode_inputs (astype_str lib) label_encoders (DataFrame user_inputs)) (\<lambda>encoded.
     and_then (select_columns encoded model_columns) (\<lambda>input_df.
     and_then (scaler_transform lib scaler input_df) (\<lambda>scaled_input.
     and_then (and_then (predict lib model scaled_input) first) (\<lambda>prediction.
     and_then (and_then (predict_proba lib model scaled_input) first) (\<lambda>prediction_probability.
       Inr (prediction, prediction_probability))))))"

text \<open>Python's \<open>==\<close>: numbers are equal when their values are.\<close>

fun num_val :: "cell \<Rightarrow> rat option" where
  "num_val (IntV i) = Some (of_int i)"
| "num_val (FloatV r) = Some r"
| "num_val _ = None"

definition py_eq :: "cell \<Rightarrow> cell \<Rightarrow> bool" where
  "py_eq a b =
     (case num_val a of
        None \<Rightarrow> a = b
      | Some x \<Rightarrow> (case num_val b of None \<Rightarrow> False | Some y \<Rightarrow> x = y))"

text \<open>
  \<open>display_main_prediction\<close>: \<open>probability[1]\<close> is read before anything is shown.
\<close>

definition display_main_prediction :: "cell \<Rightarrow> 'p list \<Rightarrow> py_exn + 'p ui_event list" where
  "display_main_prediction prediction probability =
     (case probability of
        _ # p1 # _ \<Rightarrow> Inr [if py_eq prediction (IntV 1) then HighRisk p1 else LowRisk p1]
      | _ \<Rightarrow> Inl (IndexError ''index 1 is out of bounds''))"

text \<open>Python's \<open>>\<close> and \<open>>=\<close> between a value of the dictionary and a number.\<close>

definition py_gt :: "cell \<Rightarrow> rat \<Rightarrow> py_exn + bool" where
  "py_gt v c = (case num_val v of Some r \<Rightarrow> Inr (r > c) | None \<Rightarrow> Inl (TypeError ''> not supported''))"

definition py_ge :: "cell \<Rightarrow> rat \<Rightarrow> py_exn + bool" where
  "py_ge v c = (case num_val v of Some r \<Rightarrow> Inr (r \<ge> c) | None \<Rightarrow> Inl (TypeError ''>= not supported''))"

text \<open>
  \<open>display_risk_factors\<close>, lines 340 to 370: the list of risk factors, built before
  anything is shown. Each \<open>inputs[key]\<close> raises \<open>KeyError\<close> when the key is absent,
  and \<open>and\<close> evaluates its right operand only when the left one holds.
\<close>

definition age_factor :: "raw_record \<Rightarrow> py_exn + risk_factor list" where
  "age_factor inputs =
     and_then (item inputs ''Age'') (\<lambda>age.
     and_then (py_gt age 45) (\<lambda>above45.
     and_then (if above45 then and_then (item inputs ''Sex'') (\<lambda>sex. Inr (sex = StrV ''M''))
               else Inr False) (\<lambda>male45.
       if male45 then Inr [AgeAbove45Male age]
       else and_then (py_gt age 55) (\<lambda>above55.
            and_then (if above55 then and_then (item inputs ''Sex'') (\<lambda>sex. Inr (sex = StrV ''F''))
                      else Inr False) (\<lambda>female55.
              Inr (if female55 then [AgeAbove55Female age] else []))))))"

definition oldpeak_factor :: "raw_record \<Rightarrow> py_exn + risk_factor list" where
  "oldpeak_factor inputs =
     and_then (item inputs ''Oldpeak'') (\<lambda>oldpeak.
     and_then (py_ge oldpeak (3 / 2)) (\<lambda>significant.
       if significant then Inr [SignificantSTDepression oldpeak]
       else and_then (py_gt oldpeak 0) (\<lambda>minor.
              Inr (if minor then [MinorSTDepression oldpeak] else []))))"

definition risk_factors_of :: "raw_record \<Rightarrow> py_exn + risk_factor list" where
  "risk_factors_of inputs =
     and_then (age_factor inputs) (\<lambda>f_age.
     and_then (item inputs ''RestingBP'') (\<lambda>bp.
     and_then (py_ge bp 130) (\<lambda>bp_high.
     and_then (item inputs ''Cholesterol'') (\<lambda>chol.
     and_then (py_ge chol 200) (\<lambda>chol_high.
     and_then (item inputs ''FastingBS'') (\<lambda>fbs.
     and_then (item inputs ''ExerciseAngina'') (\<lambda>exang.
     and_then (oldpeak_factor inputs) (\<lambda>f_oldpeak.
     and_then (item inputs ''Ca'') (\<lambda>ca.
     and_then (py_gt ca 0) (\<lambda>ca_pos.
     and_then (item inputs ''ChestPainType'') (\<lambda>cp.
       Inr (f_age
          @ (if bp_high then [ElevatedBloodPressure bp] else [])
          @ (if chol_high then [ElevatedCholesterol chol] else [])
          @ (if py_eq fbs (IntV 1) then [ImpairedFastingGlucose] else [])
          @ (if exang = StrV ''Y'' then [ExerciseInducedAngina] else [])
          @ f_oldpeak
          @ (if ca_pos then [VesselsAffected ca] else [])
          @ (if cp \<in> set [StrV ''ATA'', StrV ''TA''] then [SymptomaticChestPain cp] else []))
     )))))))))))"

definition display_risk_factors :: "raw_record \<Rightarrow> py_exn + 'p ui_event list" where
  "display_risk_factors inputs = and_then (risk_factors_of inputs) (\<lambda>fs. Inr [RiskFactors fs])"

definition display_health_recommendations :: "cell \<Rightarrow> 'p ui_event list" where
  "display_health_recommendations prediction = [Recommendations (py_eq prediction (IntV 1))]"

text \<open>
  The handler of lines 297 to 299: an \<open>Exception\<close> is shown on the page and the call
  returns; anything else leaves the call. What was shown before stays on the page.
\<close>

definition except_Exception ::
  "'p ui_event list \<Rightarrow> py_exn \<Rightarrow> 'p ui_event list \<times> py_exn option" where
  "except_Exception shown e =
     (if is_Exception e then (shown @ [ErrorInPrediction e, CheckInputsHint], None)
      else (shown, Some e))"

text \<open>
  \<open>display_prediction_results\<close>: what the page shows, and the exception that reaches
  the caller, if any. \<open>user_inputs\<close> is the dictionary read from
  \<open>st.session_state\<close>.
\<close>

definition display_prediction_results ::
  "('g, 'm, 's, 'x, 'p) sklearn \<Rightarrow> 'm \<Rightarrow> 's \<Rightarrow> string list \<Rightarrow> encoder_bank \<Rightarrow> raw_record \<Rightarrow>
   'p ui_event list \<times> py_exn option" where
  "display_prediction_results lib model scaler model_columns label_encoders user_inputs =
     (let header = [Divider, PredictionResultHeader] in
      case predict_steps lib model scaler model_columns label_encoders user_inputs of
        Inl e \<Rightarrow> except_Exception header e
      | Inr (prediction, prediction_probability) \<Rightarrow>
          (case display_main_prediction prediction prediction_probability of
             Inl e \<Rightarrow> except_Exception header e
           | Inr main_shown \<Rightarrow>
               (case display_risk_factors user_inputs of
                  Inl e \<Rightarrow> except_Exception (header @ main_shown) e
                | Inr factors_shown \<Rightarrow>
                    (header @ main_shown @ factors_shown
                       @ display_health_recommendations prediction, None))))"

section \<open>Scenarios\<close>


text \<open>
  A stand-in for the library, to run the scripts on concrete inputs. The generator state
  is its seed. The splitter rejects what scikit-learn's stratified split with a fifth of
  the rows for testing rejects (no row left for training, a label with a single row,
  fewer rows than labels in either part) and otherwise puts the first rows in the test
  part. The scaler rejects a frame that has not the columns it was fitted on and
  otherwise leaves the values as they are, and the classifier answers 0 with
  probabilities 1 and 0 for every row. A string of decimal digits is read as that
  number. Every dump and every print completes.
\<close>

definition n_rows :: "dataframe \<Rightarrow> nat" where
  "n_rows df = (case df of [] \<Rightarrow> 0 | kv # _ \<Rightarrow> length (snd kv))"

definition digits_value :: "string \<Rightarrow> nat option" where
  "digits_value s =
     (if s \<noteq> [] \<and> list_all (\<lambda>c. c \<in> set ''0123456789'') s
      then Some (foldl (\<lambda>n c. 10 * n + (of_char c - 48)) 0 s)
      else None)"

definition stand_in_split ::
  "dataframe \<Rightarrow> cell list \<Rightarrow> py_exn + (dataframe \<times> dataframe \<times> cell list \<times> cell list)" where
  "stand_in_split X y =
     (let n_test = (length y + 4) div 5;
          n_train = length y - n_test;
          labels = remdups y
      in if n_train = 0 then Inl (ValueError ''the resulting train set will be empty'')
         else if list_ex (\<lambda>c. count_list y c < 2) labels
           then Inl (ValueError ''The least populated class in y has only 1 member'')
         else if n_train < length labels \<or> n_test < length labels
           then Inl (ValueError ''should be greater or equal to the number of classes'')
         else Inr (map (\<lambda>kv. (fst kv, drop n_test (snd kv))) X,
                   map (\<lambda>kv. (fst kv, take n_test (snd kv))) X,
                   drop n_test y, take n_test y))"

definition stand_in :: "(int, string, string list, dataframe, rat) sklearn" where
  "stand_in =
     \<lparr>RandomState = (\<lambda>seed. seed),
      train_test_split = (\<lambda>g X y. stand_in_split X y),
      scaler_fit = (\<lambda>X. Inr (columns X)),
      scaler_transform = (\<lambda>fitted_on X.
        if columns X = fitted_on then Inr X
        else Inl (ValueError ''feature names should match those passed during fit'')),
      forest_fit = (\<lambda>g X y. Inr ''forest''),
      predict = (\<lambda>m X. Inr (replicate (n_rows X) (IntV 0))),
      predict_proba = (\<lambda>m X. Inr (replicate (n_rows X) [1, 0])),
      score = (\<lambda>m X y. Inr 1),
      astype_str = (\<lambda>dt s.
        case digits_value s of
          None \<Rightarrow> None
        | Some n \<Rightarrow>
            (case dt of Int64 \<Rightarrow> Some (IntV (int n)) | Float64 \<Rightarrow> Some (FloatV (of_nat n))
             | Object \<Rightarrow> Some (StrV s))),
      joblib_dump = (\<lambda>name. None),
      print_out = (\<lambda>message. None)\<rparr>"

definition spec_encoders :: encoder_bank where
  "spec_encoders =
     [(''Sex'', [StrV ''F'', StrV ''M'']),
      (''ChestPainType'', [StrV ''ASY'', StrV ''ATA'', StrV ''NAP'', StrV ''TA'']),
      (''RestingECG'', [StrV ''LVH'', StrV ''Normal'', StrV ''ST'']),
      (''ExerciseAngina'', [StrV ''N'', StrV ''Y'']),
      (''ST_Slope'', [StrV ''Down'', StrV ''Flat'', StrV ''Up''])]"

text \<open>
  The same bank when the dataset writes \<open>Sex\<close> as one of the numbers 1, 2 and 10.
\<close>

definition numeric_sex_encoders :: encoder_bank where
  "numeric_sex_encoders = AList.update ''Sex'' [IntV 1, IntV 2, IntV 10] spec_encoders"

text \<open>The record of the end-to-end scenario, with the value of \<open>Sex\<close> left open.\<close>

definition scenario_record :: "cell \<Rightarrow> raw_record" where
  "scenario_record sex =
     [(''Age'', IntV 50), (''Sex'', sex), (''ChestPainType'', StrV ''ATA''),
      (''RestingBP'', IntV 120), (''Cholesterol'', IntV 200), (''FastingBS'', IntV 0),
      (''RestingECG'', StrV ''Normal''), (''MaxHR'', IntV 150), (''ExerciseAngina'', StrV ''N''),
      (''Oldpeak'', FloatV 1), (''ST_Slope'', StrV ''Flat''), (''Ca'', IntV 0), (''Thal'', IntV 1)]"

definition without :: "string \<Rightarrow> (string \<times> 'a) list \<Rightarrow> (string \<times> 'a) list" where
  "without k user_inputs = filter (\<lambda>kv. fst kv \<noteq> k) user_inputs"

text \<open>The scenario's record with \<open>Sex\<close> M, as a frame, after the encoders.\<close>

definition scenario_encoded :: "(string \<times> cell list) list" where
  "scenario_encoded =
     [(''Age'', [IntV 50]), (''Sex'', [IntV 1]), (''ChestPainType'', [IntV 1]),
      (''RestingBP'', [IntV 120]), (''Cholesterol'', [IntV 200]), (''FastingBS'', [IntV 0]),
      (''RestingECG'', [IntV 1]), (''MaxHR'', [IntV 150]), (''ExerciseAngina'', [IntV 0]),
      (''Oldpeak'', [FloatV 1]), (''ST_Slope'', [IntV 1]), (''Ca'', [IntV 0]), (''Thal'', [IntV 1])]"

text \<open>The form as it first appears: every slider and select box at its default.\<close>

definition default_widgets :: widgets where
  "default_widgets =
     \<lparr>age_slider = 50, sex_choice = 0, restbp_slider = 120, chol_slider = 200, cp_choice = 0,
      fbs_choice = 0, restecg_choice = 0, exang_choice = 0, maxhr_slider = 150,
      oldpeak_slider = 1, slope_choice = 0, ca_slider = 0, thal_slider = 1\<rparr>"







section \<open>Properties of the label encoder\<close>

lemma and_then_Inl: "and_then (Inl e) f = Inl e"
  by (simp add: and_then_def)

lemma and_then_Inr: "and_then (Inr x) f = f x"
  by (simp add: and_then_def)

lemma and_then_eq_Inr:
  "and_then m f = Inr y \<longleftrightarrow> (\<exists>x. m = Inr x \<and> f x = Inr y)"
  by (cases m) (simp_all add: and_then_def)

lemma index_of_less: "x \<in> set xs \<Longrightarrow> index_of xs x < length xs"
  unfolding index_of_def
  by (induction xs) auto

lemma nth_index_of: "x \<in> set xs \<Longrightarrow> xs ! index_of xs x = x"
  unfolding index_of_def
  by (induction xs) auto

lemma index_of_nth: "distinct xs \<Longrightarrow> i < length xs \<Longrightarrow> index_of xs (xs ! i) = i"
  unfolding index_of_def
proof (induction xs arbitrary: i)
  case Nil
  then show ?case by simp
next
  case (Cons a xs)
  then show ?case by (cases i) auto
qed

lemma le_fit_distinct: "le_fit ys = Inr classes \<Longrightarrow> distinct classes"
  unfolding le_fit_def
  by (auto simp: distinct_map inj_on_def split: dtype.splits if_splits)

lemma str_of_inverse: "is_str v \<Longrightarrow> StrV (str_of v) = v"
  by (cases v) auto

lemma int_of_inverse: "is_int v \<Longrightarrow> IntV (int_of v) = v"
  by (cases v) auto

lemma float_of_inverse: "is_float v \<Longrightarrow> FloatV (float_of v) = v"
  by (cases v) auto

lemma dtype_of_Int64: "dtype_of xs = Int64 \<Longrightarrow> list_all is_int xs"
  by (simp add: dtype_of_def split: if_splits)

lemma dtype_of_Float64: "dtype_of xs = Float64 \<Longrightarrow> list_all is_float xs"
  by (simp add: dtype_of_def split: if_splits)

lemma le_fit_set: "le_fit ys = Inr classes \<Longrightarrow> set classes = set ys"
proof (cases "dtype_of ys")
  case Int64
  assume "le_fit ys = Inr classes"
  then have "classes = map IntV (sort (remdups (map int_of ys)))"
    using Int64 by (simp add: le_fit_def)
  then show ?thesis
    using dtype_of_Int64 [OF Int64]
    by (auto simp: list_all_iff image_iff int_of_inverse)
next
  case Float64
  assume "le_fit ys = Inr classes"
  then have "classes = map FloatV (sort (remdups (map float_of ys)))"
    using Float64 by (simp add: le_fit_def)
  then show ?thesis
    using dtype_of_Float64 [OF Float64]
    by (auto simp: list_all_iff image_iff float_of_inverse)
next
  case Object
  assume "le_fit ys = Inr classes"
  then have "list_all is_str ys" and "classes = map StrV (sort (remdups (map str_of ys)))"
    using Object by (simp_all add: le_fit_def split: if_splits)
  then show ?thesis
    by (auto simp: list_all_iff image_iff str_of_inverse)
qed

text \<open>The cast leaves a value that is among the classes as it is.\<close>

lemma astype_class: "v \<in> set classes \<Longrightarrow> astype parse (dtype_of classes) v = Inr v"
proof (cases "dtype_of classes")
  case Int64
  assume "v \<in> set classes"
  then have "is_int v"
    using dtype_of_Int64 [OF Int64] by (simp add: list_all_iff)
  then show ?thesis using Int64 by (cases v) simp_all
next
  case Float64
  assume "v \<in> set classes"
  then have "is_float v"
    using dtype_of_Float64 [OF Float64] by (simp add: list_all_iff)
  then show ?thesis using Float64 by (cases v) simp_all
next
  case Object
  then show ?thesis by simp
qed

lemma astype_all_classes:
  "set ys \<subseteq> set classes \<Longrightarrow> astype_all parse (dtype_of classes) ys = Inr ys"
  by (induction ys) (simp_all add: astype_class and_then_Inr)

lemma astype_all_Object: "astype_all parse Object ys = Inr ys"
  by (induction ys) (simp_all add: and_then_Inr)

lemma dtype_of_strings: "list_all is_str xs \<Longrightarrow> dtype_of xs = Object"
proof (cases xs)
  case Nil
  then show ?thesis by (simp add: dtype_of_def)
next
  case (Cons x rest)
  assume "list_all is_str xs"
  then have "is_str x" using Cons by simp
  then have "\<not> is_int x" and "\<not> is_float x" by (cases x; simp)+
  then show ?thesis using Cons by (simp add: dtype_of_def)
qed

lemma le_transform_seen:
  "lab \<in> set classes \<Longrightarrow>
   le_transform parse classes [lab] = Inr [int (index_of classes lab)]"
  by (simp add: le_transform_def astype_class and_then_Inr)

lemma le_inverse_transform_code:
  "i < length classes \<Longrightarrow> le_inverse_transform classes [int i] = Inr [classes ! i]"
  by (simp add: le_inverse_transform_def)

text \<open>
  C5. For an encoder fitted on a column, every label of the column is encoded to a code
  that decodes to the same label, and every assigned code (a position below the number
  of classes) decodes to a label that is encoded to the same code.
\<close>

theorem label_encoder_bijection:
  assumes "le_fit ys = Inr classes"
  shows "(\<forall>lab \<in> set ys. \<exists>code. le_transform parse classes [lab] = Inr [code]
            \<and> le_inverse_transform classes [code] = Inr [lab])
       \<and> (\<forall>code. 0 \<le> code \<and> code < int (length classes) \<longrightarrow>
            (\<exists>lab. le_inverse_transform classes [code] = Inr [lab]
               \<and> le_transform parse classes [lab] = Inr [code]))"
proof (intro conjI ballI allI impI)
  fix lab assume "lab \<in> set ys"
  then have mem: "lab \<in> set classes"
    using le_fit_set [OF assms] by simp
  have "le_inverse_transform classes [int (index_of classes lab)] = Inr [lab]"
    using le_inverse_transform_code [OF index_of_less [OF mem]] nth_index_of [OF mem]
    by simp
  then show "\<exists>code. le_transform parse classes [lab] = Inr [code]
      \<and> le_inverse_transform classes [code] = Inr [lab]"
    using le_transform_seen [OF mem] by blast
next
  fix code :: int assume range: "0 \<le> code \<and> code < int (length classes)"
  then have lt: "nat code < length classes" and code_eq: "int (nat code) = code"
    by auto
  have dec: "le_inverse_transform classes [code] = Inr [classes ! nat code]"
    using le_inverse_transform_code [OF lt] code_eq by simp
  have mem: "classes ! nat code \<in> set classes"
    using lt by simp
  have "index_of classes (classes ! nat code) = nat code"
    using index_of_nth [OF le_fit_distinct [OF assms] lt] .
  then have "le_transform parse classes [classes ! nat code] = Inr [code]"
    using le_transform_seen [OF mem] code_eq by simp
  then show "\<exists>lab. le_inverse_transform classes [code] = Inr [lab]
      \<and> le_transform parse classes [lab] = Inr [code]"
    using dec by blast
qed

theorem label_encoder_bijection_witness:
  "le_fit [StrV ''M'', StrV ''F'', StrV ''M''] = Inr [StrV ''F'', StrV ''M'']
   \<and> (\<exists>code. le_transform (astype_str stand_in) [StrV ''F'', StrV ''M''] [StrV ''M''] = Inr [code]
         \<and> le_inverse_transform [StrV ''F'', StrV ''M''] [code] = Inr [StrV ''M''])
   \<and> (\<exists>lab. le_inverse_transform [StrV ''F'', StrV ''M''] [1] = Inr [lab]
         \<and> le_transform (astype_str stand_in) [StrV ''F'', StrV ''M''] [lab] = Inr [1])"
proof -
  let ?cast = "astype_str stand_in"
  have fit: "le_fit [StrV ''M'', StrV ''F'', StrV ''M''] = Inr [StrV ''F'', StrV ''M'']"
    by code_simp
  have both: "(\<forall>lab \<in> set [StrV ''M'', StrV ''F'', StrV ''M''].
       \<exists>code. le_transform ?cast [StrV ''F'', StrV ''M''] [lab] = Inr [code]
            \<and> le_inverse_transform [StrV ''F'', StrV ''M''] [code] = Inr [lab])
     \<and> (\<forall>code. 0 \<le> code \<and> code < int (length [StrV ''F'', StrV ''M'']) \<longrightarrow>
            (\<exists>lab. le_inverse_transform [StrV ''F'', StrV ''M''] [code] = Inr [lab]
               \<and> le_transform ?cast [StrV ''F'', StrV ''M''] [lab] = Inr [code]))"
    using label_encoder_bijection [OF fit] .
  from both have a: "\<exists>code. le_transform ?cast [StrV ''F'', StrV ''M''] [StrV ''M''] = Inr [code]
         \<and> le_inverse_transform [StrV ''F'', StrV ''M''] [code] = Inr [StrV ''M'']"
    by simp
  from both have "0 \<le> (1::int) \<and> (1::int) < int (length [StrV ''F'', StrV ''M'']) \<longrightarrow>
      (\<exists>lab. le_inverse_transform [StrV ''F'', StrV ''M''] [1] = Inr [lab]
         \<and> le_transform ?cast [StrV ''F'', StrV ''M''] [lab] = Inr [1])"
    by blast
  then have b: "\<exists>lab. le_inverse_transform [StrV ''F'', StrV ''M''] [1] = Inr [lab]
         \<and> le_transform ?cast [StrV ''F'', StrV ''M''] [lab] = Inr [1]"
    by simp
  show ?thesis using fit a b by blast
qed

section \<open>The inference steps and their handler\<close>

lemma map_of_DataFrame: "map_of (DataFrame user_inputs) k = map_option (\<lambda>v. [v]) (map_of user_inputs k)"
  unfolding DataFrame_def
  by (induction user_inputs) auto

lemma columns_DataFrame: "columns (DataFrame user_inputs) = map fst user_inputs"
  by (simp add: columns_def DataFrame_def comp_def)

lemma in_columns_iff: "c \<in> set (columns df) \<longleftrightarrow> map_of df c \<noteq> None"
  by (simp add: columns_def map_of_eq_None_iff)

lemma map_of_set_col_other: "c \<noteq> k \<Longrightarrow> map_of (set_col df c xs) k = map_of df k"
  by (simp add: set_col_def update_conv')

lemma columns_set_col: "c \<in> set (columns df) \<Longrightarrow> columns (set_col df c xs) = columns df"
  by (simp add: set_col_def columns_def update_keys)

lemma le_transform_cases:
  assumes "dtype_of cls = Object"
  shows "(\<exists>codes. le_transform parse cls ys = Inr codes \<and> set ys \<subseteq> set cls)
   \<or> (\<exists>labs. le_transform parse cls ys = Inl (UnseenLabels labs))"
proof (cases "filter (\<lambda>v. v \<notin> set cls) ys")
  case Nil
  then have "set ys \<subseteq> set cls"
    by (auto simp: filter_empty_conv)
  with Nil show ?thesis
    by (simp add: le_transform_def assms astype_all_Object and_then_Inr)
next
  case (Cons u us)
  then show ?thesis
    by (simp add: le_transform_def assms astype_all_Object and_then_Inr)
qed

lemma encode_inputs_unseen:
  assumes "distinct (map fst les)" and "(col, cls) \<in> set les"
    and "map_of df col = Some ys" and "\<not> set ys \<subseteq> set cls"
    and "list_all (\<lambda>p. dtype_of (snd p) = Object) les"
  shows "\<exists>labs. encode_inputs parse les df = Inl (UnseenLabels labs)"
  using assms
proof (induction les arbitrary: df)
  case Nil
  then show ?case by simp
next
  case (Cons p rest)
  obtain c le where p: "p = (c, le)" by (cases p)
  have obj: "dtype_of le = Object" and rest_obj: "list_all (\<lambda>p. dtype_of (snd p) = Object) rest"
    using Cons.prems(5) p by simp_all
  show ?case
  proof (cases "c \<in> set (columns df)")
    case False
    then have "c \<noteq> col"
      using Cons.prems(3) by (auto simp: in_columns_iff)
    then have "(col, cls) \<in> set rest"
      using Cons.prems(2) p by auto
    then have "\<exists>labs. encode_inputs parse rest df = Inl (UnseenLabels labs)"
      using Cons.IH [of df] Cons.prems(1,3,4) rest_obj by simp
    then show ?thesis
      using False p by simp
  next
    case True
    then obtain ys' where ys': "map_of df c = Some ys'"
      by (auto simp: in_columns_iff)
    then have got: "get_col df c = Inr ys'"
      by (simp add: get_col_def)
    consider (ok) codes where "le_transform parse le ys' = Inr codes" "set ys' \<subseteq> set le"
      | (unseen) labs where "le_transform parse le ys' = Inl (UnseenLabels labs)"
      using le_transform_cases [OF obj, of parse ys'] by blast
    then show ?thesis
    proof cases
      case unseen
      then show ?thesis
        using True p got by (auto simp: and_then_def)
    next
      case ok
      have neq: "c \<noteq> col"
      proof
        assume eq: "c = col"
        then have "le = cls"
          using Cons.prems(1,2) p by (auto simp: image_iff)
        with eq ys' Cons.prems(3,4) ok(2) show False by simp
      qed
      then have mem: "(col, cls) \<in> set rest"
        using Cons.prems(2) p by auto
      have "map_of (set_col df c (code_cells codes)) col = Some ys"
        using neq Cons.prems(3) by (simp add: map_of_set_col_other)
      then have "\<exists>labs. encode_inputs parse rest (set_col df c (code_cells codes)) = Inl (UnseenLabels labs)"
        using Cons.IH [of "set_col df c (code_cells codes)"] Cons.prems(1,4) mem rest_obj by simp
      then show ?thesis
        using True p got ok(1) by (simp add: and_then_def)
    qed
  qed
qed

lemma encode_inputs_columns: "encode_inputs parse les df = Inr enc \<Longrightarrow> columns enc = columns df"
proof (induction les arbitrary: df)
  case Nil
  then show ?case by simp
next
  case (Cons p rest)
  obtain c le where p: "p = (c, le)" by (cases p)
  show ?case
  proof (cases "c \<in> set (columns df)")
    case False
    then show ?thesis using Cons p by simp
  next
    case True
    with Cons.prems p obtain ys codes where
      "encode_inputs parse rest (set_col df c (code_cells codes)) = Inr enc"
      by (auto simp: and_then_eq_Inr)
    then have "columns enc = columns (set_col df c (code_cells codes))"
      by (rule Cons.IH)
    then show ?thesis using True by (simp add: columns_set_col)
  qed
qed

lemma select_columns_missing:
  "c \<in> set cols \<Longrightarrow> c \<notin> set (columns df) \<Longrightarrow>
   select_columns df cols = Inl (KeyError (filter (\<lambda>c. c \<notin> set (columns df)) cols))"
proof -
  assume "c \<in> set cols" "c \<notin> set (columns df)"
  then have "filter (\<lambda>c. c \<notin> set (columns df)) cols \<noteq> []"
    by (auto simp: filter_empty_conv)
  then show ?thesis
    by (cases "filter (\<lambda>c. c \<notin> set (columns df)) cols") (simp_all add: select_columns_def)
qed


lemma shown_on_failure:
  "predict_steps lib model scaler cols les user_inputs = Inl e \<Longrightarrow> is_Exception e \<Longrightarrow>
   display_prediction_results lib model scaler cols les user_inputs
     = ([Divider, PredictionResultHeader, ErrorInPrediction e, CheckInputsHint], None)"
  by (simp add: display_prediction_results_def except_Exception_def)




text \<open>
  C3 (amended). For an encoder bank fitted on string labels (every class of every
  encoder a string, as for the five categorical fields of the specification): when the record
  holds, for a column that has an encoder in the bank, a value that is not among the
  encoder's classes, the steps end with the label encoder's \<open>ValueError\<close> for unseen
  labels; the value gets no code, no prediction is shown, the page shows the error and a
  hint, and the call returns to its caller without raising.
\<close>

theorem unseen_category_is_shown_and_not_raised:
  assumes "distinct (map fst les)"
    and "list_all (\<lambda>p. list_all is_str (snd p)) les"
    and "(col, classes) \<in> set les"
    and "map_of user_inputs col = Some v" and "v \<notin> set classes"
  shows "\<exists>labs. predict_steps lib model scaler cols les user_inputs = Inl (UnseenLabels labs)
     \<and> display_prediction_results lib model scaler cols les user_inputs
         = ([Divider, PredictionResultHeader, ErrorInPrediction (UnseenLabels labs),
             CheckInputsHint], None)"
proof -
  have "map_of (DataFrame user_inputs) col = Some [v]"
    using assms(4) by (simp add: map_of_DataFrame)
  moreover have "\<not> set [v] \<subseteq> set classes"
    using assms(5) by simp
  moreover have "list_all (\<lambda>p. dtype_of (snd p) = Object) les"
    using assms(2) by (simp add: list_all_iff dtype_of_strings)
  ultimately obtain labs where
    "encode_inputs (astype_str lib) les (DataFrame user_inputs) = Inl (UnseenLabels labs)"
    using encode_inputs_unseen [OF assms(1,3)] by blast
  then have steps: "predict_steps lib model scaler cols les user_inputs = Inl (UnseenLabels labs)"
    by (simp add: predict_steps_def and_then_Inl)
  then show ?thesis
    using shown_on_failure [OF steps] by simp
qed

theorem unseen_category_is_shown_and_not_raised_witness:
  "distinct (map fst spec_encoders)
 \<and> list_all (\<lambda>p. list_all is_str (snd p)) spec_encoders
 \<and> (''Sex'', [StrV ''F'', StrV ''M'']) \<in> set spec_encoders
 \<and> map_of (scenario_record (StrV ''X'')) ''Sex'' = Some (StrV ''X'')
 \<and> StrV ''X'' \<notin> set [StrV ''F'', StrV ''M'']
 \<and> (\<exists>labs. predict_steps stand_in ''forest'' form_fields form_fields spec_encoders
         (scenario_record (StrV ''X'')) = Inl (UnseenLabels labs)
     \<and> display_prediction_results stand_in ''forest'' form_fields form_fields spec_encoders
         (scenario_record (StrV ''X''))
         = ([Divider, PredictionResultHeader, ErrorInPrediction (UnseenLabels labs),
             CheckInputsHint], None))"
proof -
  have h1: "distinct (map fst spec_encoders)" by code_simp
  have h2: "list_all (\<lambda>p. list_all is_str (snd p)) spec_encoders" by code_simp
  have h3: "(''Sex'', [StrV ''F'', StrV ''M'']) \<in> set spec_encoders"
    by (simp add: spec_encoders_def)
  have h4: "map_of (scenario_record (StrV ''X'')) ''Sex'' = Some (StrV ''X'')"
    by (simp add: scenario_record_def)
  have h5: "StrV ''X'' \<notin> set [StrV ''F'', StrV ''M'']" by simp
  show ?thesis
    using h1 h2 h3 h4 h5
      unseen_category_is_shown_and_not_raised [OF h1 h2 h3 h4 h5,
        where lib = stand_in and model = "''forest''" and scaler = form_fields and cols = form_fields]
    by blast
qed

text \<open>
  Two records against the claim as it stands. With \<open>Sex\<close> X the error is shown and
  nothing is raised. With a bank whose \<open>Sex\<close> classes are the integers 1, 2 and 10, the
  unseen value 2.5 is cast to 2, gets the code of 2, and a prediction is shown.
\<close>

theorem sex_X_shown_not_raised_counterexample:
  "display_prediction_results stand_in ''forest'' form_fields form_fields spec_encoders
       (scenario_record (StrV ''X''))
     = ([Divider, PredictionResultHeader, ErrorInPrediction (UnseenLabels [StrV ''X'']),
         CheckInputsHint], None)
 \<and> FloatV (5 / 2) \<notin> set [IntV 1, IntV 2, IntV 10]
 \<and> map_of numeric_sex_encoders ''Sex'' = Some [IntV 1, IntV 2, IntV 10]
 \<and> le_transform (astype_str stand_in) [IntV 1, IntV 2, IntV 10] [FloatV (5 / 2)] = Inr [1]
 \<and> display_prediction_results stand_in ''forest'' form_fields form_fields numeric_sex_encoders
       (scenario_record (FloatV (5 / 2)))
     = ([Divider, PredictionResultHeader, LowRisk 0,
         RiskFactors [ElevatedCholesterol (IntV 200), MinorSTDepression (FloatV 1),
           SymptomaticChestPain (StrV ''ATA'')],
         Recommendations False], None)"
  by code_simp

text \<open>
  C4 (amended). When every categorical value of the record is known to its encoder and
  the record lacks a column of the registry, ordering the columns raises pandas'
  \<open>KeyError\<close> with the registry's columns that the record lacks; no prediction is
  shown, the page shows the error and a hint, and the call returns to its caller without
  raising.
\<close>

theorem missing_column_is_shown_and_not_raised:
  assumes "encode_inputs (astype_str lib) les (DataFrame user_inputs) = Inr encoded"
    and "c \<in> set cols" and "c \<notin> fst ` set user_inputs"
  shows "predict_steps lib model scaler cols les user_inputs
           = Inl (KeyError (filter (\<lambda>c. c \<notin> fst ` set user_inputs) cols))
     \<and> c \<in> set (filter (\<lambda>c. c \<notin> fst ` set user_inputs) cols)
     \<and> display_prediction_results lib model scaler cols les user_inputs
         = ([Divider, PredictionResultHeader,
             ErrorInPrediction (KeyError (filter (\<lambda>c. c \<notin> fst ` set user_inputs) cols)),
             CheckInputsHint], None)"
proof -
  have cols_enc: "set (columns encoded) = fst ` set user_inputs"
    using encode_inputs_columns [OF assms(1)] by (simp add: columns_DataFrame)
  then have "c \<notin> set (columns encoded)"
    using assms(3) by simp
  then have "select_columns encoded cols
      = Inl (KeyError (filter (\<lambda>c. c \<notin> fst ` set user_inputs) cols))"
    using select_columns_missing [OF assms(2)] cols_enc by simp
  then have steps: "predict_steps lib model scaler cols les user_inputs
      = Inl (KeyError (filter (\<lambda>c. c \<notin> fst ` set user_inputs) cols))"
    using assms(1) by (simp add: predict_steps_def and_then_Inl and_then_Inr)
  show ?thesis
    using steps shown_on_failure [OF steps] assms(2,3) by simp
qed

theorem missing_column_is_shown_and_not_raised_witness:
  "encode_inputs (astype_str stand_in) spec_encoders (DataFrame (without ''Oldpeak'' (scenario_record (StrV ''M''))))
     = Inr (without ''Oldpeak'' scenario_encoded)
 \<and> ''Oldpeak'' \<in> set form_fields
 \<and> ''Oldpeak'' \<notin> fst ` set (without ''Oldpeak'' (scenario_record (StrV ''M'')))
 \<and> predict_steps stand_in ''forest'' form_fields form_fields spec_encoders
       (without ''Oldpeak'' (scenario_record (StrV ''M'')))
     = Inl (KeyError (filter (\<lambda>c. c \<notin> fst ` set (without ''Oldpeak'' (scenario_record (StrV ''M''))))
         form_fields))
 \<and> filter (\<lambda>c. c \<notin> fst ` set (without ''Oldpeak'' (scenario_record (StrV ''M'')))) form_fields
     = [''Oldpeak'']"
proof -
  have h1: "encode_inputs (astype_str stand_in) spec_encoders (DataFrame (without ''Oldpeak'' (scenario_record (StrV ''M''))))
     = Inr (without ''Oldpeak'' scenario_encoded)"
    by code_simp
  have h2: "''Oldpeak'' \<in> set form_fields"
    by (simp add: form_fields_def)
  have h3: "''Oldpeak'' \<notin> fst ` set (without ''Oldpeak'' (scenario_record (StrV ''M'')))"
    by (auto simp: without_def)
  have names: "filter (\<lambda>c. c \<notin> fst ` set (without ''Oldpeak'' (scenario_record (StrV ''M'')))) form_fields
     = [''Oldpeak'']"
    by (simp add: without_def scenario_record_def form_fields_def)
  show ?thesis
    using h1 h2 h3 names
      missing_column_is_shown_and_not_raised [OF h1 h2 h3,
        where model = "''forest''" and scaler = form_fields]
    by simp
qed

theorem oldpeak_omitted_shown_not_raised_counterexample:
  "display_prediction_results stand_in ''forest'' form_fields form_fields spec_encoders
       (without ''Oldpeak'' (scenario_record (StrV ''M'')))
     = ([Divider, PredictionResultHeader, ErrorInPrediction (KeyError [''Oldpeak'']),
         CheckInputsHint], None)"
  by code_simp

section \<open>The artifact files\<close>








section \<open>The bundle that train.py writes\<close>

lemma encode_columns_step:
  assumes "encode_columns lib (col # cs) df acc = Inr (df', les)"
  obtains ys classes codes where "map_of df col = Some ys" and "le_fit ys = Inr classes"
    and "encode_columns lib cs (set_col df col (code_cells codes)) (AList.update col classes acc)
           = Inr (df', les)"
proof -
  from assms obtain ys where ys: "get_col df col = Inr ys"
    and rest: "and_then (le_fit_transform ys) (\<lambda>(classes, codes).
       and_then (stmt (print_out lib (''Encoded '' @ col))) (\<lambda>_.
         encode_columns lib cs (set_col df col (code_cells codes))
           (AList.update col classes acc))) = Inr (df', les)"
    by (auto simp: and_then_eq_Inr)
  from rest obtain classes codes where ft: "le_fit_transform ys = Inr (classes, codes)"
    and go: "encode_columns lib cs (set_col df col (code_cells codes))
           (AList.update col classes acc) = Inr (df', les)"
    by (auto simp: and_then_eq_Inr)
  from ft have "le_fit ys = Inr classes"
    by (auto simp: le_fit_transform_def and_then_eq_Inr)
  moreover from ys have "map_of df col = Some ys"
    by (auto simp: get_col_def split: option.splits)
  ultimately show thesis using go that by blast
qed

lemma encode_columns_keys:
  "encode_columns lib cs df acc = Inr (df', les) \<Longrightarrow> distinct cs \<Longrightarrow>
   set cs \<inter> fst ` set acc = {} \<Longrightarrow> map fst les = map fst acc @ cs"
proof (induction cs arbitrary: df acc)
  case Nil
  then show ?case by simp
next
  case (Cons col cs)
  from Cons.prems(1) obtain ys classes codes where
    go: "encode_columns lib cs (set_col df col (code_cells codes)) (AList.update col classes acc)
           = Inr (df', les)"
    by (rule encode_columns_step)
  have keys: "map fst (AList.update col classes acc) = map fst acc @ [col]"
    using Cons.prems(3) by (simp add: update_keys)
  then have "set cs \<inter> fst ` set (AList.update col classes acc) = {}"
    using Cons.prems(2,3) by (auto simp: dom_update)
  then have "map fst les = map fst (AList.update col classes acc) @ cs"
    using Cons.IH [OF go] Cons.prems(2) by simp
  then show ?case using keys by simp
qed

lemma encode_columns_columns:
  "encode_columns lib cs df acc = Inr (df', les) \<Longrightarrow> columns df' = columns df"
proof (induction cs arbitrary: df acc)
  case Nil
  then show ?case by simp
next
  case (Cons col cs)
  from Cons.prems(1) obtain ys classes codes where has: "map_of df col = Some ys"
    and go: "encode_columns lib cs (set_col df col (code_cells codes)) (AList.update col classes acc)
           = Inr (df', les)"
    by (rule encode_columns_step)
  have "col \<in> set (columns df)"
    using has by (simp add: in_columns_iff)
  then show ?case
    using Cons.IH [OF go] by (simp add: columns_set_col)
qed

lemma encode_columns_others:
  "encode_columns lib cs df acc = Inr (df', les) \<Longrightarrow> c \<notin> set cs \<Longrightarrow> map_of les c = map_of acc c"
proof (induction cs arbitrary: df acc)
  case Nil
  then show ?case by simp
next
  case (Cons col cs)
  from Cons.prems(1) obtain ys classes codes where
    go: "encode_columns lib cs (set_col df col (code_cells codes)) (AList.update col classes acc)
           = Inr (df', les)"
    by (rule encode_columns_step)
  have "map_of les c = map_of (AList.update col classes acc) c"
    using Cons.IH [OF go] Cons.prems(2) by simp
  then show ?case
    using Cons.prems(2) by (simp add: update_conv')
qed

lemma encode_columns_fitted:
  "encode_columns lib cs df acc = Inr (df', les) \<Longrightarrow> distinct cs \<Longrightarrow> c \<in> set cs \<Longrightarrow>
   \<exists>ys classes. map_of df c = Some ys \<and> le_fit ys = Inr classes \<and> map_of les c = Some classes"
proof (induction cs arbitrary: df acc)
  case Nil
  then show ?case by simp
next
  case (Cons col cs)
  from Cons.prems(1) obtain ys classes codes where has: "map_of df col = Some ys"
    and fit: "le_fit ys = Inr classes"
    and go: "encode_columns lib cs (set_col df col (code_cells codes)) (AList.update col classes acc)
           = Inr (df', les)"
    by (rule encode_columns_step)
  show ?case
  proof (cases "c = col")
    case True
    then have "c \<notin> set cs" using Cons.prems(2) by simp
    then have "map_of les c = Some classes"
      using encode_columns_others [OF go] True by (simp add: update_conv')
    then show ?thesis using True has fit by simp
  next
    case False
    then have "c \<in> set cs" using Cons.prems(3) by simp
    then obtain zs cls where "map_of (set_col df col (code_cells codes)) c = Some zs"
      and "le_fit zs = Inr cls" and "map_of les c = Some cls"
      using Cons.IH [OF go] Cons.prems(2) by auto
    then show ?thesis
      using False by (auto simp: map_of_set_col_other)
  qed
qed

text \<open>
  What a run of train.py that reaches its end has written: the encoder bank holds, under
  the names of the five categorical columns and in their order, the encoders fitted on
  those columns of the dataset, and the registry holds the dataset's columns, in their
  order, without the label.
\<close>

lemma trained_bundle:
  assumes "train lib d = (d', Inr t)"
  obtains csv les where "heart_csv d = Some csv"
    and "label_encoders_pkl d' = Some les"
    and "map fst les = categorical_cols"
    and "\<And>c. c \<in> set categorical_cols \<Longrightarrow>
           \<exists>ys classes. map_of csv c = Some ys \<and> le_fit ys = Inr classes \<and> map_of les c = Some classes"
    and "model_columns_pkl d' = Some (filter (\<lambda>c. c \<noteq> ''HeartDisease'') (columns csv))"
proof -
  from assms obtain les X y where prep: "load_and_encode lib d = Inr (les, X, y)"
    and d': "d' = d\<lparr>model_columns_pkl := Some (columns X), heart_model_pkl := Some (fitted_model t),
                   scaler_pkl := Some (fitted_scaler t), label_encoders_pkl := Some les\<rparr>"
    by (auto simp: train_def Let_def split: sum.splits prod.splits option.splits)
  from prep obtain csv df where csv: "heart_csv d = Some csv"
    and enc: "encode_columns lib categorical_cols csv [] = Inr (df, les)"
    and X: "drop_col df ''HeartDisease'' = Inr X"
    by (auto simp: load_and_encode_def open_file_def and_then_eq_Inr split: option.splits)
  have dist: "distinct categorical_cols"
    by (simp add: categorical_cols_def)
  have keys: "map fst les = categorical_cols"
    using encode_columns_keys [OF enc dist] by simp
  have "columns X = filter (\<lambda>c. c \<noteq> ''HeartDisease'') (columns df)"
    using X by (auto simp: drop_col_def columns_def filter_map comp_def split: if_splits)
  then have cols: "columns X = filter (\<lambda>c. c \<noteq> ''HeartDisease'') (columns csv)"
    using encode_columns_columns [OF enc] by simp
  show thesis
  proof (rule that [OF csv _ keys])
    show "label_encoders_pkl d' = Some les" by (simp add: d')
    show "model_columns_pkl d' = Some (filter (\<lambda>c. c \<noteq> ''HeartDisease'') (columns csv))"
      by (simp add: d' cols)
    fix c assume "c \<in> set categorical_cols"
    then show "\<exists>ys classes. map_of csv c = Some ys \<and> le_fit ys = Inr classes
        \<and> map_of les c = Some classes"
      using encode_columns_fitted [OF enc dist] by blast
  qed
qed

section \<open>The record that the form hands over\<close>

lemma le_transform_known: "set ys \<subseteq> set cls \<Longrightarrow> \<exists>codes. le_transform parse cls ys = Inr codes"
proof -
  assume "set ys \<subseteq> set cls"
  then have "filter (\<lambda>v. v \<notin> set cls) ys = []"
    by (auto simp: filter_empty_conv)
  then show ?thesis
    using \<open>set ys \<subseteq> set cls\<close>
    by (simp add: le_transform_def astype_all_classes and_then_Inr)
qed

lemma encode_inputs_known:
  assumes "distinct (map fst les)"
    and "\<And>col cls ys. (col, cls) \<in> set les \<Longrightarrow> map_of df col = Some ys \<Longrightarrow> set ys \<subseteq> set cls"
  shows "\<exists>enc. encode_inputs parse les df = Inr enc"
  using assms
proof (induction les arbitrary: df)
  case Nil
  then show ?case by simp
next
  case (Cons p rest)
  obtain c le where p: "p = (c, le)" by (cases p)
  have dist: "distinct (map fst rest)" and fresh: "c \<notin> fst ` set rest"
    using Cons.prems(1) p by auto
  show ?case
  proof (cases "c \<in> set (columns df)")
    case False
    have "\<exists>enc. encode_inputs parse rest df = Inr enc"
    proof (rule Cons.IH [OF dist])
      fix col cls ys
      assume "(col, cls) \<in> set rest" "map_of df col = Some ys"
      then show "set ys \<subseteq> set cls"
        using Cons.prems(2) [of col cls ys] by simp
    qed
    then show ?thesis using False p by simp
  next
    case True
    then obtain ys where ys: "map_of df c = Some ys"
      by (auto simp: in_columns_iff)
    then have "set ys \<subseteq> set le"
      using Cons.prems(2) [of c le ys] p by simp
    then obtain codes where codes: "le_transform parse le ys = Inr codes"
      using le_transform_known [of ys le parse] by blast
    have "\<exists>enc. encode_inputs parse rest (set_col df c (code_cells codes)) = Inr enc"
    proof (rule Cons.IH [OF dist])
      fix col cls zs
      assume mem: "(col, cls) \<in> set rest"
        and zs: "map_of (set_col df c (code_cells codes)) col = Some zs"
      from mem fresh have "c \<noteq> col" by force
      then have "map_of df col = Some zs"
        using zs by (simp add: map_of_set_col_other)
      then show "set zs \<subseteq> set cls"
        using Cons.prems(2) [of col cls zs] mem by simp
    qed
    then show ?thesis
      using True p ys codes by (simp add: get_col_def and_then_def)
  qed
qed

lemma select_columns_present:
  "set cols \<subseteq> set (columns df) \<Longrightarrow> \<exists>out. select_columns df cols = Inr out"
proof -
  assume "set cols \<subseteq> set (columns df)"
  then have "filter (\<lambda>c. c \<notin> set (columns df)) cols = []"
    by (auto simp: filter_empty_conv)
  then show ?thesis by (simp add: select_columns_def)
qed

lemma bank_of_five:
  assumes "map fst les = categorical_cols"
  obtains c1 c2 c3 c4 c5 where
    "les = [(''Sex'', c1), (''ChestPainType'', c2), (''RestingECG'', c3),
            (''ExerciseAngina'', c4), (''ST_Slope'', c5)]"
  using assms
  by (auto simp: categorical_cols_def map_eq_Cons_conv)

lemma fbs_values:
  assumes "i < 2"
  shows "py_int (selectbox [StrV ''0'', StrV ''1''] i) = Inr (IntV 0)
       \<or> py_int (selectbox [StrV ''0'', StrV ''1''] i) = Inr (IntV 1)"
proof -
  from assms have "i = 0 \<or> i = 1" by auto
  then show ?thesis by (auto simp: selectbox_def)
qed

text \<open>
  C10. For an encoder bank as train.py builds it (one encoder for each of the five
  categorical columns), a form state that the widgets allow and a registry whose columns
  are among the thirteen fields of the form: the form yields a record with exactly the
  thirteen fields, each categorical value is one of the classes of its encoder,
  \<open>FastingBS\<close> is 0 or 1, and then neither the encoding nor the ordering of the
  columns raises.
\<close>

theorem form_record_is_encodable_and_complete:
  assumes "map fst les = categorical_cols"
    and "widgets_ok les w"
    and "set cols \<subseteq> set form_fields"
  shows "\<exists>user_inputs encoded input_df.
       display_input_section les w = Inr user_inputs
     \<and> map fst user_inputs = form_fields
     \<and> list_all (\<lambda>(col, classes).
          case map_of user_inputs col of None \<Rightarrow> False | Some v \<Rightarrow> v \<in> set classes) les
     \<and> (map_of user_inputs ''FastingBS'' = Some (IntV 0)
        \<or> map_of user_inputs ''FastingBS'' = Some (IntV 1))
     \<and> encode_inputs parse les (DataFrame user_inputs) = Inr encoded
     \<and> select_columns encoded cols = Inr input_df"
proof -
  obtain c1 c2 c3 c4 c5 where les:
    "les = [(''Sex'', c1), (''ChestPainType'', c2), (''RestingECG'', c3),
            (''ExerciseAngina'', c4), (''ST_Slope'', c5)]"
    using bank_of_five [OF assms(1)] by blast
  have i1: "sex_choice w < length c1" and i2: "cp_choice w < length c2"
    and i3: "restecg_choice w < length c3" and i4: "exang_choice w < length c4"
    and i5: "slope_choice w < length c5" and i6: "fbs_choice w < 2"
    using assms(2) by (simp_all add: widgets_ok_def choice_ok_def les)
  obtain fbs where fbs: "py_int (selectbox [StrV ''0'', StrV ''1''] (fbs_choice w)) = Inr fbs"
    and fbs01: "fbs = IntV 0 \<or> fbs = IntV 1"
    using fbs_values [OF i6] by blast
  define user_inputs where "user_inputs =
    [(''Age'', IntV (age_slider w)),
     (''Sex'', c1 ! sex_choice w),
     (''ChestPainType'', c2 ! cp_choice w),
     (''RestingBP'', IntV (restbp_slider w)),
     (''Cholesterol'', IntV (chol_slider w)),
     (''FastingBS'', fbs),
     (''RestingECG'', c3 ! restecg_choice w),
     (''MaxHR'', IntV (maxhr_slider w)),
     (''ExerciseAngina'', c4 ! exang_choice w),
     (''Oldpeak'', FloatV (oldpeak_slider w)),
     (''ST_Slope'', c5 ! slope_choice w),
     (''Ca'', IntV (ca_slider w)),
     (''Thal'', IntV (thal_slider w))]"
  have shown: "display_input_section les w = Inr user_inputs"
    using i1 i2 i3 i4 i5 fbs
    by (simp add: display_input_section_def item_def les and_then_def selectbox_def
        user_inputs_def)
  have keys: "map fst user_inputs = form_fields"
    by (simp add: user_inputs_def form_fields_def)
  have member: "list_all (\<lambda>(col, classes).
      case map_of user_inputs col of None \<Rightarrow> False | Some v \<Rightarrow> v \<in> set classes) les"
    using i1 i2 i3 i4 i5 by (simp add: les user_inputs_def)
  have fbs_in: "map_of user_inputs ''FastingBS'' = Some (IntV 0)
      \<or> map_of user_inputs ''FastingBS'' = Some (IntV 1)"
    using fbs01 by (simp add: user_inputs_def)
  have dist: "distinct (map fst les)"
    by (simp add: assms(1) categorical_cols_def)
  have "\<exists>enc. encode_inputs parse les (DataFrame user_inputs) = Inr enc"
  proof (rule encode_inputs_known [OF dist])
    fix col cls ys
    assume "(col, cls) \<in> set les" and "map_of (DataFrame user_inputs) col = Some ys"
    then show "set ys \<subseteq> set cls"
      using i1 i2 i3 i4 i5
      by (auto simp: les map_of_DataFrame user_inputs_def)
  qed
  then obtain encoded where enc: "encode_inputs parse les (DataFrame user_inputs) = Inr encoded"
    by blast
  have "columns encoded = form_fields"
    using encode_inputs_columns [OF enc] keys by (simp add: columns_DataFrame)
  then obtain input_df where sel: "select_columns encoded cols = Inr input_df"
    using select_columns_present [of cols encoded] assms(3) by auto
  show ?thesis
    using shown keys member fbs_in enc sel by blast
qed

theorem form_record_is_encodable_and_complete_witness:
  "map fst spec_encoders = categorical_cols
 \<and> widgets_ok spec_encoders default_widgets
 \<and> set form_fields \<subseteq> set form_fields
 \<and> (\<exists>user_inputs encoded input_df.
       display_input_section spec_encoders default_widgets = Inr user_inputs
     \<and> map fst user_inputs = form_fields
     \<and> list_all (\<lambda>(col, classes).
          case map_of user_inputs col of None \<Rightarrow> False | Some v \<Rightarrow> v \<in> set classes)
          spec_encoders
     \<and> (map_of user_inputs ''FastingBS'' = Some (IntV 0)
        \<or> map_of user_inputs ''FastingBS'' = Some (IntV 1))
     \<and> encode_inputs (astype_str stand_in) spec_encoders (DataFrame user_inputs) = Inr encoded
     \<and> select_columns encoded form_fields = Inr input_df)"
proof -
  have h1: "map fst spec_encoders = categorical_cols" by code_simp
  have h2: "widgets_ok spec_encoders default_widgets" by code_simp
  have h3: "set form_fields \<subseteq> set form_fields" by simp
  show ?thesis
    using h1 h2
      form_record_is_encodable_and_complete [OF h1 h2 h3, where parse = "astype_str stand_in"]
    by simp
qed

end
